theory Spec2Isabelle
  imports Complex_Main
begin

section \<open>CMVN feature normalisation (athena/transform/feats/cmvn.py)\<close>

text \<open>
  The module normalises acoustic feature frames with global statistics taken from the
  configuration and, optionally, with statistics of the utterance itself. The numeric
  primitives (subtraction, division, square root, mean over an axis) belong to NumPy and
  TensorFlow, not to the module: they are parameters of the embedding, collected in the
  record \<open>ops\<close>, so every general theorem holds for whatever arithmetic the
  libraries implement. The instance \<open>real_ops\<close> interprets them over the reals and is
  used to evaluate concrete inputs.
\<close>

subsection \<open>Numeric primitives of the array libraries\<close>

record 'a ops =
  np_sqrt :: "'a \<Rightarrow> 'a"
  np_add :: "'a \<Rightarrow> 'a \<Rightarrow> 'a"
  t_sub :: "'a \<Rightarrow> 'a \<Rightarrow> 'a"
  t_div :: "'a \<Rightarrow> 'a \<Rightarrow> 'a"
  t_sqrt :: "'a \<Rightarrow> 'a"
  t_add :: "'a \<Rightarrow> 'a \<Rightarrow> 'a"
  t_mean :: "'a list \<Rightarrow> 'a"
  t_sqdiff :: "'a \<Rightarrow> 'a \<Rightarrow> 'a"
  eps :: "'a"
  lit_zero :: "'a"
  lit_one :: "'a"

text \<open>
  \<open>np_sqrt\<close> and \<open>np_add\<close> are the element operations of \<^verbatim>\<open>np.sqrt(v) + 1e-6\<close>;
  \<open>t_sub\<close>, \<open>t_div\<close>, \<open>t_sqrt\<close> and \<open>t_add\<close> those of the tensor expressions in
  \<^verbatim>\<open>call\<close> and \<^verbatim>\<open>compute_cmvn\<close>; \<open>t_mean\<close> is \<^verbatim>\<open>reduce_mean\<close> over one
  column and \<open>t_sqdiff\<close> the squared difference that \<^verbatim>\<open>tf.nn.moments\<close> averages;
  \<open>eps\<close>, \<open>lit_zero\<close> and \<open>lit_one\<close> are the literals \<^verbatim>\<open>1e-6\<close>, \<^verbatim>\<open>0.0\<close>
  and \<^verbatim>\<open>1.0\<close>.
\<close>

definition real_ops :: "real ops" where
  "real_ops = \<lparr> np_sqrt = sqrt, np_add = (+), t_sub = (-), t_div = (/), t_sqrt = sqrt,
     t_add = (+), t_mean = (\<lambda>xs. sum_list xs / real (length xs)),
     t_sqdiff = (\<lambda>a b. (a - b) * (a - b)), eps = 1 / 1000000,
     lit_zero = 0, lit_one = 1 \<rparr>"

subsection \<open>Errors\<close>

text \<open>
  Both \<^verbatim>\<open>assert\<close> statements raise \<^verbatim>\<open>AssertionError\<close>; the one in \<^verbatim>\<open>params\<close>
  carries the two lengths in its message. \<open>UnknownKeyError\<close> is the failure of strict
  parsing, \<open>ShapeError\<close> the failure of the library to broadcast two shapes.
\<close>

datatype error =
  UnknownKeyError string
  | AssertionError "(nat \<times> nat) option"
  | ShapeError

definition bind_err :: "error + 'a \<Rightarrow> ('a \<Rightarrow> error + 'b) \<Rightarrow> error + 'b" where
  "bind_err r f = (case r of Inl e \<Rightarrow> Inl e | Inr v \<Rightarrow> f v)"

subsection \<open>Configuration\<close>

text \<open>The parameter store after \<^verbatim>\<open>params\<close>: the four registered hyperparameters.\<close>

record 'a hparams =
  hp_type :: string
  global_mean :: "'a list"
  global_variance :: "'a list"
  local_cmvn :: bool

text \<open>
  The caller's configuration dictionary: an optional value for each recognised key, and
  the other keys it holds.
\<close>

record 'a config_dict =
  cfg_type :: "string option"
  cfg_global_mean :: "'a list option"
  cfg_global_variance :: "'a list option"
  cfg_local_cmvn :: "bool option"
  cfg_other_keys :: "string list"

text \<open>
  Modelled from the spec: \<^verbatim>\<open>HParams.parse\<close> (athena/utils/hparam.py is not among the
  sources). It applies the caller's values on top of the defaults; with \<open>strict\<close> it
  fails on a key that was never registered, without it such keys are ignored.
\<close>

definition parse :: "'a hparams \<Rightarrow> 'a config_dict \<Rightarrow> bool \<Rightarrow> error + 'a hparams" where
  "parse hp cfg strict =
     (if strict \<and> cfg_other_keys cfg \<noteq> [] then Inl (UnknownKeyError (hd (cfg_other_keys cfg)))
      else Inr \<lparr> hp_type = (case cfg_type cfg of None \<Rightarrow> hp_type hp | Some v \<Rightarrow> v),
                 global_mean = (case cfg_global_mean cfg of None \<Rightarrow> global_mean hp | Some v \<Rightarrow> v),
                 global_variance =
                   (case cfg_global_variance cfg of None \<Rightarrow> global_variance hp | Some v \<Rightarrow> v),
                 local_cmvn = (case cfg_local_cmvn cfg of None \<Rightarrow> local_cmvn hp | Some v \<Rightarrow> v) \<rparr>)"

text \<open>The store after the four \<^verbatim>\<open>add_hparam\<close> calls on a fresh store.\<close>

definition defaults :: "'a ops \<Rightarrow> 'a hparams" where
  "defaults ops =
     \<lparr> hp_type = ''CMVN'', global_mean = [lit_zero ops], global_variance = [lit_one ops],
       local_cmvn = False \<rparr>"

text \<open>\<^verbatim>\<open>CMVN.params\<close>: defaults, strict parse, the length assertion, the rescaling.\<close>

definition params :: "'a ops \<Rightarrow> 'a config_dict option \<Rightarrow> error + 'a hparams" where
  "params ops config =
     bind_err (case config of None \<Rightarrow> Inr (defaults ops)
               | Some cfg \<Rightarrow> parse (defaults ops) cfg True)
       (\<lambda>hparams.
          if length (global_mean hparams) = length (global_variance hparams)
          then Inr (hparams \<lparr> global_variance :=
                      map (\<lambda>v. np_add ops (np_sqrt ops v) (eps ops)) (global_variance hparams) \<rparr>)
          else Inl (AssertionError
                      (Some (length (global_mean hparams), length (global_variance hparams)))))"

text \<open>The values of the two vectors once the overrides are applied.\<close>

definition mean_after :: "'a ops \<Rightarrow> 'a config_dict option \<Rightarrow> 'a list" where
  "mean_after ops config =
     (case config of None \<Rightarrow> [lit_zero ops]
      | Some cfg \<Rightarrow> (case cfg_global_mean cfg of None \<Rightarrow> [lit_zero ops] | Some v \<Rightarrow> v))"

definition variance_after :: "'a ops \<Rightarrow> 'a config_dict option \<Rightarrow> 'a list" where
  "variance_after ops config =
     (case config of None \<Rightarrow> [lit_one ops]
      | Some cfg \<Rightarrow> (case cfg_global_variance cfg of None \<Rightarrow> [lit_one ops] | Some v \<Rightarrow> v))"

definition unknown_keys :: "'a config_dict option \<Rightarrow> string list" where
  "unknown_keys config = (case config of None \<Rightarrow> [] | Some cfg \<Rightarrow> cfg_other_keys cfg)"

subsection \<open>Feature tensors and broadcasting\<close>

text \<open>
  A feature tensor is a sequence of frames of one dimensionality \<open>fdim\<close>: its shape
  is \<open>[length (frames x), fdim x]\<close>. The dimensionality is a field of its own so that
  a tensor without frames still has a last dimension.
\<close>

record 'a tensor =
  fdim :: nat
  frames :: "'a list list"

definition wf_tensor :: "'a tensor \<Rightarrow> bool" where
  "wf_tensor x = list_all (\<lambda>fr. length fr = fdim x) (frames x)"

text \<open>
  The broadcasting rule that NumPy and TensorFlow share, for the last axis of the tensor
  against a vector: equal lengths combine element by element, a length of one is
  stretched to the other length, anything else is a shape error.
\<close>

definition bdim :: "nat \<Rightarrow> nat \<Rightarrow> nat option" where
  "bdim a b = (if a = b then Some a else if a = 1 then Some b else if b = 1 then Some a else None)"

definition stretch :: "nat \<Rightarrow> 'a list \<Rightarrow> 'a list" where
  "stretch n xs = (if length xs = 1 \<and> n \<noteq> 1 then replicate n (hd xs) else xs)"

definition broadcast_op :: "('a \<Rightarrow> 'a \<Rightarrow> 'a) \<Rightarrow> 'a tensor \<Rightarrow> 'a list \<Rightarrow> error + 'a tensor" where
  "broadcast_op f x v =
     (case bdim (fdim x) (length v) of
        None \<Rightarrow> Inl ShapeError
      | Some n \<Rightarrow> Inr \<lparr> fdim = n, frames = map (\<lambda>fr. map2 f (stretch n fr) (stretch n v)) (frames x) \<rparr>)"

text \<open>
  \<^verbatim>\<open>tf.compat.v1.nn.moments(x, axes=0)\<close>: for every dimension the mean of its column
  and the mean of the squared differences from that mean.
\<close>

definition column :: "'a tensor \<Rightarrow> nat \<Rightarrow> 'a list" where
  "column x d = map (\<lambda>fr. fr ! d) (frames x)"

definition moments :: "'a ops \<Rightarrow> 'a tensor \<Rightarrow> 'a list \<times> 'a list" where
  "moments ops x =
     (let mean = map (\<lambda>d. t_mean ops (column x d)) [0..<fdim x];
          var = map (\<lambda>d. t_mean ops (map (\<lambda>v. t_sqdiff ops v (mean ! d)) (column x d)))
                  [0..<fdim x]
      in (mean, var))"

text \<open>
  The local step, written twice in the source with the same text (in \<^verbatim>\<open>call\<close> and in
  \<^verbatim>\<open>compute_cmvn\<close>).
\<close>

definition local_step :: "'a ops \<Rightarrow> 'a tensor \<Rightarrow> error + 'a tensor" where
  "local_step ops audio_feature =
     (case moments ops audio_feature of
        (mean, var) \<Rightarrow>
          bind_err (broadcast_op (t_sub ops) audio_feature mean)
            (\<lambda>y. broadcast_op (t_div ops) y (map (\<lambda>v. t_add ops (t_sqrt ops v) (eps ops)) var)))"

text \<open>
  The two statistics that \<open>moments\<close> returns for dimension \<open>d\<close>: the mean of the
  column, and the mean of the squared differences from it.
\<close>

definition col_mean :: "'a ops \<Rightarrow> 'a tensor \<Rightarrow> nat \<Rightarrow> 'a" where
  "col_mean ops y d = t_mean ops (column y d)"

definition col_var :: "'a ops \<Rightarrow> 'a tensor \<Rightarrow> nat \<Rightarrow> 'a" where
  "col_var ops y d = t_mean ops (map (\<lambda>v. t_sqdiff ops v (col_mean ops y d)) (column y d))"

subsection \<open>The CMVN object\<close>

record 'a CMVN =
  config :: "'a hparams"
  global_cmvn :: bool

text \<open>
  \<^verbatim>\<open>CMVN.__init__\<close>: the base constructor keeps the configuration, then the flag is
  derived from the length of \<^verbatim>\<open>global_mean\<close>.
\<close>

definition CMVN_init :: "'a hparams \<Rightarrow> 'a CMVN" where
  "CMVN_init cfg = \<lparr> config = cfg, global_cmvn = (if length (global_mean cfg) > 1 then True else False) \<rparr>"

text \<open>\<^verbatim>\<open>CMVN.call\<close>; the argument \<open>speed\<close> is accepted and never read.\<close>

definition call :: "'a ops \<Rightarrow> 'a CMVN \<Rightarrow> 'a tensor \<Rightarrow> 'a \<Rightarrow> error + 'a tensor" where
  "call ops self audio_feature speed =
     (let params = config self in
      bind_err
        (if global_cmvn self
         then bind_err (broadcast_op (t_sub ops) audio_feature (global_mean params))
                (\<lambda>y. broadcast_op (t_div ops) y (global_variance params))
         else Inr audio_feature)
        (\<lambda>audio_feature.
           if local_cmvn params then local_step ops audio_feature else Inr audio_feature))"

text \<open>\<^verbatim>\<open>compute_cmvn\<close>, with \<^verbatim>\<open>None\<close> for an argument that is left out.\<close>

definition compute_cmvn ::
  "'a ops \<Rightarrow> 'a tensor \<Rightarrow> 'a list option \<Rightarrow> 'a list option \<Rightarrow> bool \<Rightarrow> error + 'a tensor" where
  "compute_cmvn ops audio_feature mean variance local =
     bind_err
       (case mean of
          None \<Rightarrow> Inr audio_feature
        | Some m \<Rightarrow>
            (case variance of
               None \<Rightarrow> Inl (AssertionError None)
             | Some v \<Rightarrow> bind_err (broadcast_op (t_sub ops) audio_feature m)
                          (\<lambda>y. broadcast_op (t_div ops) y v)))
       (\<lambda>audio_feature. if local then local_step ops audio_feature else Inr audio_feature)"

subsection \<open>The names the class binds\<close>

text \<open>
  What the text of the class binds depends only on where its \<^verbatim>\<open>def\<close> and
  \<^verbatim>\<open>return\<close> statements stand. A block is a list of statements: a \<^verbatim>\<open>def\<close> with
  its name and body, a \<^verbatim>\<open>return\<close>, or any other statement. Running a block binds the
  names of the \<^verbatim>\<open>def\<close> statements reached before the first \<^verbatim>\<open>return\<close>; the body
  of a \<^verbatim>\<open>def\<close> runs only when the function is called.
\<close>

datatype stmt = Def string "stmt list" | Return | Other

fun bound_names :: "stmt list \<Rightarrow> string list" where
  "bound_names [] = []"
| "bound_names (Def name body # rest) = name # bound_names rest"
| "bound_names (Return # rest) = []"
| "bound_names (Other # rest) = bound_names rest"

text \<open>
  The body of \<^verbatim>\<open>call\<close>: an assignment, two \<^verbatim>\<open>if\<close> statements without a
  \<^verbatim>\<open>return\<close> inside, the \<^verbatim>\<open>return\<close>, and after it, at the same indentation, the
  \<^verbatim>\<open>def dim\<close>. The class body holds the three methods \<^verbatim>\<open>__init__\<close>,
  \<^verbatim>\<open>params\<close> and \<^verbatim>\<open>call\<close>.
\<close>

definition call_body :: "stmt list" where
  "call_body = [Other, Other, Other, Return, Def ''dim'' [Other, Return]]"

definition CMVN_body :: "stmt list" where
  "CMVN_body =
     [Def ''__init__'' [Other, Other, Other],
      Def ''params'' [Other, Other, Other, Other, Other, Other, Other, Other, Other, Return],
      Def ''call'' call_body]"

section \<open>Properties\<close>

text \<open>The fields of the real-number instance, one equation each.\<close>

lemma real_ops_sel:
  "np_sqrt real_ops = sqrt" "np_add real_ops = (+)" "t_sub real_ops = (-)"
  "t_div real_ops = (/)" "t_sqrt real_ops = sqrt" "t_add real_ops = (+)"
  "t_mean real_ops = (\<lambda>xs. sum_list xs / real (length xs))"
  "t_sqdiff real_ops = (\<lambda>a b. (a - b) * (a - b))"
  "eps real_ops = 1 / 1000000" "lit_zero real_ops = 0" "lit_one real_ops = 1"
  by (simp_all add: real_ops_def)

subsection \<open>The parameter store built by \<^verbatim>\<open>params\<close>\<close>

lemma params_None:
  "params ops None =
     Inr \<lparr> hp_type = ''CMVN'', global_mean = [lit_zero ops],
           global_variance = [np_add ops (np_sqrt ops (lit_one ops)) (eps ops)],
           local_cmvn = False \<rparr>"
  by (simp add: params_def defaults_def bind_err_def)

lemma params_Some_unknown:
  "cfg_other_keys cfg \<noteq> [] \<Longrightarrow>
   params ops (Some cfg) = Inl (UnknownKeyError (hd (cfg_other_keys cfg)))"
  by (simp add: params_def parse_def bind_err_def)

lemma parse_known:
  "cfg_other_keys cfg = [] \<Longrightarrow>
   parse (defaults ops) cfg True =
     Inr \<lparr> hp_type = (case cfg_type cfg of None \<Rightarrow> ''CMVN'' | Some v \<Rightarrow> v),
           global_mean = mean_after ops (Some cfg),
           global_variance = variance_after ops (Some cfg),
           local_cmvn = (case cfg_local_cmvn cfg of None \<Rightarrow> False | Some v \<Rightarrow> v) \<rparr>"
  by (simp add: parse_def defaults_def mean_after_def variance_after_def split: option.splits)

lemma params_Some_known:
  "cfg_other_keys cfg = [] \<Longrightarrow>
   params ops (Some cfg) =
     (if length (mean_after ops (Some cfg)) = length (variance_after ops (Some cfg))
      then Inr \<lparr> hp_type = (case cfg_type cfg of None \<Rightarrow> ''CMVN'' | Some v \<Rightarrow> v),
                 global_mean = mean_after ops (Some cfg),
                 global_variance =
                   map (\<lambda>v. np_add ops (np_sqrt ops v) (eps ops)) (variance_after ops (Some cfg)),
                 local_cmvn = (case cfg_local_cmvn cfg of None \<Rightarrow> False | Some v \<Rightarrow> v) \<rparr>
      else Inl (AssertionError
                  (Some (length (mean_after ops (Some cfg)), length (variance_after ops (Some cfg))))))"
  by (simp add: params_def parse_known bind_err_def)

text \<open>
  C1. \<^verbatim>\<open>CMVN.params\<close> returns a configuration only when \<^verbatim>\<open>global_mean\<close> and
  \<^verbatim>\<open>global_variance\<close> have the same length once the overrides are applied. When the
  lengths differ it fails: with the assertion error that reports the two lengths, or, when
  the dictionary also holds a key that was never registered, with the error of the strict
  parse that runs first. A returned configuration keeps the mean as given and has two
  vectors of one length.
\<close>

theorem params_length_invariant:
  "(length (mean_after ops conf) \<noteq> length (variance_after ops conf) \<longrightarrow>
      isl (params ops conf))
   \<and> (unknown_keys conf = [] \<and>
        length (mean_after ops conf) \<noteq> length (variance_after ops conf) \<longrightarrow>
      params ops conf =
        Inl (AssertionError
               (Some (length (mean_after ops conf), length (variance_after ops conf)))))
   \<and> (params ops conf = Inr h \<longrightarrow>
        length (mean_after ops conf) = length (variance_after ops conf)
        \<and> global_mean h = mean_after ops conf
        \<and> length (global_mean h) = length (global_variance h))"
proof (cases conf)
  case None
  then show ?thesis
    by (auto simp: params_None mean_after_def variance_after_def)
next
  case (Some cfg)
  show ?thesis
  proof (cases "cfg_other_keys cfg = []")
    case True
    then show ?thesis
      unfolding Some by (auto simp: params_Some_known unknown_keys_def)
  next
    case False
    then show ?thesis
      unfolding Some by (simp add: params_Some_unknown unknown_keys_def)
  qed
qed

theorem params_length_invariant_witness:
  "length (mean_after real_ops (Some \<lparr> cfg_type = None, cfg_global_mean = Some [0, 0, 0],
      cfg_global_variance = Some [1, 1], cfg_local_cmvn = None, cfg_other_keys = [] \<rparr>))
     \<noteq> length (variance_after real_ops (Some \<lparr> cfg_type = None, cfg_global_mean = Some [0, 0, 0],
      cfg_global_variance = Some [1, 1], cfg_local_cmvn = None, cfg_other_keys = [] \<rparr>))
   \<and> unknown_keys (Some \<lparr> cfg_type = None, cfg_global_mean = Some [0, 0, 0 :: real],
      cfg_global_variance = Some [1, 1], cfg_local_cmvn = None, cfg_other_keys = [] \<rparr>) = []
   \<and> params real_ops (Some \<lparr> cfg_type = None, cfg_global_mean = Some [0, 0, 0],
      cfg_global_variance = Some [1, 1], cfg_local_cmvn = None, cfg_other_keys = [] \<rparr>)
     = Inl (AssertionError (Some (3, 2)))
   \<and> params real_ops (Some \<lparr> cfg_type = None, cfg_global_mean = Some [0, 0],
      cfg_global_variance = Some [1, 1], cfg_local_cmvn = None, cfg_other_keys = [] \<rparr>)
     = Inr \<lparr> hp_type = ''CMVN'', global_mean = [0, 0],
             global_variance = [1 + 1 / 1000000, 1 + 1 / 1000000], local_cmvn = False \<rparr>
   \<and> length (global_mean \<lparr> hp_type = ''CMVN'', global_mean = [0, 0 :: real],
             global_variance = [1 + 1 / 1000000, 1 + 1 / 1000000], local_cmvn = False \<rparr>)
     = length (global_variance \<lparr> hp_type = ''CMVN'', global_mean = [0, 0 :: real],
             global_variance = [1 + 1 / 1000000, 1 + 1 / 1000000], local_cmvn = False \<rparr>)"
proof -
  let ?bad = "Some \<lparr> cfg_type = None, cfg_global_mean = Some [0, 0, 0 :: real],
      cfg_global_variance = Some [1, 1], cfg_local_cmvn = None, cfg_other_keys = [] \<rparr>"
  let ?good = "Some \<lparr> cfg_type = None, cfg_global_mean = Some [0, 0 :: real],
      cfg_global_variance = Some [1, 1], cfg_local_cmvn = None, cfg_other_keys = [] \<rparr>"
  let ?h = "\<lparr> hp_type = ''CMVN'', global_mean = [0, 0 :: real],
             global_variance = [1 + 1 / 1000000, 1 + 1 / 1000000], local_cmvn = False \<rparr>"
  have len: "length (mean_after real_ops ?bad) \<noteq> length (variance_after real_ops ?bad)"
    by (simp add: mean_after_def variance_after_def)
  have keys: "unknown_keys ?bad = []"
    by (simp add: unknown_keys_def)
  have "params real_ops ?bad =
          Inl (AssertionError (Some (length (mean_after real_ops ?bad),
                                     length (variance_after real_ops ?bad))))"
    using params_length_invariant [of real_ops ?bad] len keys by blast
  then have bad: "params real_ops ?bad = Inl (AssertionError (Some (3, 2)))"
    by (simp add: mean_after_def variance_after_def)
  have good: "params real_ops ?good = Inr ?h"
    by (simp add: params_def parse_def defaults_def bind_err_def real_ops_def)
  have "length (global_mean ?h) = length (global_variance ?h)"
    using params_length_invariant [of real_ops ?good ?h] good by blast
  with len keys bad good show ?thesis by blast
qed

lemma params_global_variance:
  "params ops conf = Inr h \<Longrightarrow>
   global_variance h = map (\<lambda>v. np_add ops (np_sqrt ops v) (eps ops)) (variance_after ops conf)"
proof (cases conf)
  case None
  assume "params ops conf = Inr h"
  with None show ?thesis by (auto simp: params_None variance_after_def)
next
  case (Some cfg)
  assume r: "params ops conf = Inr h"
  show ?thesis
  proof (cases "cfg_other_keys cfg = []")
    case True
    with r show ?thesis
      unfolding Some by (auto simp: params_Some_known split: if_splits)
  next
    case False
    with r show ?thesis
      unfolding Some by (simp add: params_Some_unknown)
  qed
qed

text \<open>
  C2. In a configuration returned by \<^verbatim>\<open>CMVN.params\<close> the field
  \<^verbatim>\<open>global_variance\<close> holds, for every dimension \<open>d\<close>, the square root of the raw
  variance at \<open>d\<close> plus \<^verbatim>\<open>1e-6\<close>, computed with NumPy's operations; the vector keeps
  its length. No condition on the sign of the variance is needed.
\<close>

theorem params_scales_variance:
  "params ops conf = Inr h \<Longrightarrow>
   length (global_variance h) = length (variance_after ops conf)
   \<and> (\<forall>d<length (variance_after ops conf).
         global_variance h ! d = np_add ops (np_sqrt ops (variance_after ops conf ! d)) (eps ops))"
  by (simp add: params_global_variance)

theorem params_scales_variance_witness:
  "params real_ops (Some \<lparr> cfg_type = None, cfg_global_mean = Some [0, 0, 0],
      cfg_global_variance = Some [4, 1, 0], cfg_local_cmvn = None, cfg_other_keys = [] \<rparr>)
     = Inr \<lparr> hp_type = ''CMVN'', global_mean = [0, 0, 0],
             global_variance = [2 + 1 / 1000000, 1 + 1 / 1000000, 1 / 1000000],
             local_cmvn = False \<rparr>
   \<and> [2 + 1 / 1000000, 1 + 1 / 1000000, 1 / 1000000] ! 0 = sqrt 4 + 1 / (1000000 :: real)
   \<and> [2 + 1 / 1000000, 1 + 1 / 1000000, 1 / 1000000] ! 1 = sqrt 1 + 1 / (1000000 :: real)
   \<and> [2 + 1 / 1000000, 1 + 1 / 1000000, 1 / 1000000] ! 2 = sqrt 0 + 1 / (1000000 :: real)"
proof -
  let ?c = "Some \<lparr> cfg_type = None, cfg_global_mean = Some [0, 0, 0 :: real],
      cfg_global_variance = Some [4, 1, 0], cfg_local_cmvn = None, cfg_other_keys = [] \<rparr>"
  let ?h = "\<lparr> hp_type = ''CMVN'', global_mean = [0, 0, 0 :: real],
             global_variance = [2 + 1 / 1000000, 1 + 1 / 1000000, 1 / 1000000],
             local_cmvn = False \<rparr>"
  have ok: "params real_ops ?c = Inr ?h"
    by (simp add: params_def parse_def defaults_def bind_err_def real_ops_def)
  have va: "variance_after real_ops ?c = [4, 1, 0]"
    by (simp add: variance_after_def)
  have "\<forall>d<length (variance_after real_ops ?c).
          global_variance ?h ! d
          = np_add real_ops (np_sqrt real_ops (variance_after real_ops ?c ! d)) (eps real_ops)"
    using params_scales_variance [OF ok] by blast
  then have p: "d < 3 \<Longrightarrow> [2 + 1 / 1000000, 1 + 1 / 1000000, 1 / 1000000] ! d
                 = sqrt ([4, 1, 0] ! d) + 1 / (1000000 :: real)" for d
    unfolding va by (simp add: real_ops_def)
  have "[2 + 1 / 1000000, 1 + 1 / 1000000, 1 / 1000000] ! 0 = sqrt 4 + 1 / (1000000 :: real)
     \<and> [2 + 1 / 1000000, 1 + 1 / 1000000, 1 / 1000000] ! 1 = sqrt 1 + 1 / (1000000 :: real)
     \<and> [2 + 1 / 1000000, 1 + 1 / 1000000, 1 / 1000000] ! 2 = sqrt 0 + 1 / (1000000 :: real)"
    using p [of 0] p [of 1] p [of 2] by simp
  with ok show ?thesis by blast
qed

subsection \<open>Broadcasting and the two normalisation steps\<close>

lemma stretch_same: "length xs = n \<Longrightarrow> stretch n xs = xs"
  by (auto simp: stretch_def)

lemma broadcast_op_match:
  assumes "wf_tensor x" and "length v = fdim x"
  shows "broadcast_op f x v = Inr \<lparr> fdim = fdim x, frames = map (\<lambda>fr. map2 f fr v) (frames x) \<rparr>"
proof -
  have "map (\<lambda>fr. map2 f (stretch (fdim x) fr) (stretch (fdim x) v)) (frames x)
        = map (\<lambda>fr. map2 f fr v) (frames x)"
    using assms by (intro map_cong refl) (simp add: wf_tensor_def list_all_iff stretch_same)
  then show ?thesis using assms by (simp add: broadcast_op_def bdim_def)
qed

lemma broadcast_op_nth:
  assumes "wf_tensor x" and "length v = fdim x"
  shows "\<exists>y. broadcast_op f x v = Inr y \<and> wf_tensor y \<and> fdim y = fdim x
            \<and> length (frames y) = length (frames x)
            \<and> (\<forall>t<length (frames x). \<forall>d<fdim x.
                  frames y ! t ! d = f (frames x ! t ! d) (v ! d))"
proof -
  let ?y = "\<lparr> fdim = fdim x, frames = map (\<lambda>fr. map2 f fr v) (frames x) \<rparr>"
  have "wf_tensor ?y"
    using assms by (simp add: wf_tensor_def list_all_iff)
  moreover have "\<forall>t<length (frames x). \<forall>d<fdim x.
                  frames ?y ! t ! d = f (frames x ! t ! d) (v ! d)"
    using assms by (simp add: wf_tensor_def list_all_iff)
  ultimately show ?thesis
    using broadcast_op_match [OF assms, of f] by simp
qed

lemma global_step_nth:
  assumes "wf_tensor x" and "length m = fdim x" and "length s = fdim x"
  shows "\<exists>y. bind_err (broadcast_op f x m) (\<lambda>y. broadcast_op g y s) = Inr y
            \<and> wf_tensor y \<and> fdim y = fdim x \<and> length (frames y) = length (frames x)
            \<and> (\<forall>t<length (frames x). \<forall>d<fdim x.
                  frames y ! t ! d = g (f (frames x ! t ! d) (m ! d)) (s ! d))"
proof -
  from broadcast_op_nth [OF assms(1,2), of f]
  obtain u where u: "broadcast_op f x m = Inr u" "wf_tensor u" "fdim u = fdim x"
      "length (frames u) = length (frames x)"
      "\<forall>t<length (frames x). \<forall>d<fdim x. frames u ! t ! d = f (frames x ! t ! d) (m ! d)"
    by blast
  have "length s = fdim u" using assms(3) u(3) by simp
  from broadcast_op_nth [OF u(2) this, of g]
  obtain y where y: "broadcast_op g u s = Inr y" "wf_tensor y" "fdim y = fdim u"
      "length (frames y) = length (frames u)"
      "\<forall>t<length (frames u). \<forall>d<fdim u. frames y ! t ! d = g (frames u ! t ! d) (s ! d)"
    by blast
  have "bind_err (broadcast_op f x m) (\<lambda>y. broadcast_op g y s) = Inr y"
    by (simp add: bind_err_def u(1) y(1))
  moreover have "\<forall>t<length (frames x). \<forall>d<fdim x.
                  frames y ! t ! d = g (f (frames x ! t ! d) (m ! d)) (s ! d)"
    using u y by simp
  ultimately show ?thesis using u y by simp
qed

lemma moments_nth:
  "moments ops y = (mean, var) \<Longrightarrow> d < fdim y \<Longrightarrow>
   mean ! d = col_mean ops y d \<and> var ! d = col_var ops y d"
  by (auto simp: moments_def Let_def col_mean_def col_var_def)

lemma moments_lengths:
  "moments ops x = (mean, var) \<Longrightarrow> length mean = fdim x \<and> length var = fdim x"
  by (auto simp: moments_def Let_def)

lemma local_step_nth:
  assumes "wf_tensor y"
  shows "\<exists>z. local_step ops y = Inr z
            \<and> wf_tensor z \<and> fdim z = fdim y \<and> length (frames z) = length (frames y)
            \<and> (\<forall>t<length (frames y). \<forall>d<fdim y.
                  frames z ! t ! d =
                    t_div ops (t_sub ops (frames y ! t ! d) (col_mean ops y d))
                      (t_add ops (t_sqrt ops (col_var ops y d)) (eps ops)))"
proof -
  obtain mean var where m: "moments ops y = (mean, var)"
    by (cases "moments ops y")
  let ?s = "map (\<lambda>v. t_add ops (t_sqrt ops v) (eps ops)) var"
  from moments_lengths [OF m] have lm: "length mean = fdim y" and ls: "length ?s = fdim y"
    by simp_all
  from global_step_nth [OF assms lm ls, of "t_sub ops" "t_div ops"]
  obtain z where z: "bind_err (broadcast_op (t_sub ops) y mean) (\<lambda>u. broadcast_op (t_div ops) u ?s) = Inr z"
      "wf_tensor z" "fdim z = fdim y" "length (frames z) = length (frames y)"
      "\<forall>t<length (frames y). \<forall>d<fdim y.
         frames z ! t ! d = t_div ops (t_sub ops (frames y ! t ! d) (mean ! d)) (?s ! d)"
    by blast
  have "local_step ops y = Inr z"
    using z(1) by (simp add: local_step_def m)
  moreover have "\<forall>t<length (frames y). \<forall>d<fdim y.
                  frames z ! t ! d =
                    t_div ops (t_sub ops (frames y ! t ! d) (col_mean ops y d))
                      (t_add ops (t_sqrt ops (col_var ops y d)) (eps ops))"
    using z(5) moments_nth [OF m] moments_lengths [OF m] by simp
  ultimately show ?thesis using z by blast
qed

lemma broadcast_op_shape:
  "length v = fdim x \<Longrightarrow>
   \<exists>y. broadcast_op f x v = Inr y \<and> fdim y = fdim x \<and> length (frames y) = length (frames x)"
  by (simp add: broadcast_op_def bdim_def)

lemma local_step_shape:
  "\<exists>y. local_step ops x = Inr y \<and> fdim y = fdim x \<and> length (frames y) = length (frames x)"
proof -
  obtain mean var where m: "moments ops x = (mean, var)"
    by (cases "moments ops x")
  from moments_lengths [OF m] have lm: "length mean = fdim x" and lv: "length var = fdim x"
    by simp_all
  from broadcast_op_shape [OF lm, of "t_sub ops"]
  obtain y where y: "broadcast_op (t_sub ops) x mean = Inr y" "fdim y = fdim x"
      "length (frames y) = length (frames x)"
    by blast
  have "length (map (\<lambda>v. t_add ops (t_sqrt ops v) (eps ops)) var) = fdim y"
    using lv y by simp
  from broadcast_op_shape [OF this, of "t_div ops"]
  obtain z where z: "broadcast_op (t_div ops) y (map (\<lambda>v. t_add ops (t_sqrt ops v) (eps ops)) var) = Inr z"
      "fdim z = fdim y" "length (frames z) = length (frames y)"
    by blast
  have "local_step ops x = Inr z"
    by (simp add: local_step_def m y z bind_err_def)
  with y z show ?thesis by simp
qed

lemma broadcast_op_mismatch:
  "fdim x \<noteq> length v \<Longrightarrow> fdim x \<noteq> 1 \<Longrightarrow> length v \<noteq> 1 \<Longrightarrow> broadcast_op f x v = Inl ShapeError"
  by (simp add: broadcast_op_def bdim_def)

lemma broadcast_op_column:
  "fdim x = 1 \<Longrightarrow>
   \<exists>y. broadcast_op f x v = Inr y \<and> fdim y = length v \<and> length (frames y) = length (frames x)"
  by (simp add: broadcast_op_def bdim_def)


subsection \<open>The transform \<^verbatim>\<open>call\<close>\<close>

text \<open>
  C3. For a tensor whose frames all have the dimensionality of the configured vectors,
  \<^verbatim>\<open>call\<close> returns a tensor \<open>z\<close> of the same shape, reached through an
  intermediate tensor \<open>y\<close>. If \<^verbatim>\<open>global_cmvn\<close> is set, every element of \<open>y\<close> is
  the input element minus the mean of its dimension, divided by the stored scale of its
  dimension; otherwise \<open>y\<close> is the input. If \<^verbatim>\<open>local_cmvn\<close> is set, every element of
  \<open>z\<close> is the element of \<open>y\<close> minus the mean of its column of \<open>y\<close>, divided by
  the square root of the variance of that column plus \<^verbatim>\<open>1e-6\<close>; otherwise \<open>z\<close> is
  \<open>y\<close>.
\<close>

theorem call_two_steps:
  assumes "wf_tensor x"
    and "global_cmvn c \<longrightarrow>
           length (global_mean (config c)) = fdim x \<and> length (global_variance (config c)) = fdim x"
  shows "\<exists>y z. call ops c x speed = Inr z
           \<and> wf_tensor y \<and> fdim y = fdim x \<and> length (frames y) = length (frames x)
           \<and> wf_tensor z \<and> fdim z = fdim x \<and> length (frames z) = length (frames x)
           \<and> (if global_cmvn c
              then \<forall>t<length (frames x). \<forall>d<fdim x.
                     frames y ! t ! d =
                       t_div ops (t_sub ops (frames x ! t ! d) (global_mean (config c) ! d))
                         (global_variance (config c) ! d)
              else y = x)
           \<and> (if local_cmvn (config c)
              then \<forall>t<length (frames x). \<forall>d<fdim x.
                     frames z ! t ! d =
                       t_div ops (t_sub ops (frames y ! t ! d) (col_mean ops y d))
                         (t_add ops (t_sqrt ops (col_var ops y d)) (eps ops))
              else z = y)"
proof -
  let ?G = "if global_cmvn c
            then bind_err (broadcast_op (t_sub ops) x (global_mean (config c)))
                   (\<lambda>y. broadcast_op (t_div ops) y (global_variance (config c)))
            else Inr x"
  have "\<exists>y. ?G = Inr y \<and> wf_tensor y \<and> fdim y = fdim x \<and> length (frames y) = length (frames x)
          \<and> (if global_cmvn c
              then \<forall>t<length (frames x). \<forall>d<fdim x.
                     frames y ! t ! d =
                       t_div ops (t_sub ops (frames x ! t ! d) (global_mean (config c) ! d))
                         (global_variance (config c) ! d)
              else y = x)"
  proof (cases "global_cmvn c")
    case True
    with assms(2) have l: "length (global_mean (config c)) = fdim x"
        "length (global_variance (config c)) = fdim x"
      by simp_all
    from global_step_nth [OF assms(1) l, of "t_sub ops" "t_div ops"] True
    show ?thesis by simp
  next
    case False
    with assms(1) show ?thesis by simp
  qed
  then obtain y where y: "?G = Inr y" "wf_tensor y" "fdim y = fdim x"
      "length (frames y) = length (frames x)"
      "if global_cmvn c
       then \<forall>t<length (frames x). \<forall>d<fdim x.
              frames y ! t ! d =
                t_div ops (t_sub ops (frames x ! t ! d) (global_mean (config c) ! d))
                  (global_variance (config c) ! d)
       else y = x"
    by blast
  have c: "call ops c x speed = (if local_cmvn (config c) then local_step ops y else Inr y)"
    unfolding call_def Let_def y(1) by (simp add: bind_err_def)
  show ?thesis
  proof (cases "local_cmvn (config c)")
    case True
    from local_step_nth [OF y(2), of ops]
    obtain z where z: "local_step ops y = Inr z" "wf_tensor z" "fdim z = fdim y"
        "length (frames z) = length (frames y)"
        "\<forall>t<length (frames y). \<forall>d<fdim y.
           frames z ! t ! d =
             t_div ops (t_sub ops (frames y ! t ! d) (col_mean ops y d))
               (t_add ops (t_sqrt ops (col_var ops y d)) (eps ops))"
      by blast
    have "call ops c x speed = Inr z" using c True z(1) by simp
    with y z True show ?thesis
      by (intro exI [of _ y] exI [of _ z]) simp
  next
    case False
    have "call ops c x speed = Inr y" using c False by simp
    with y False show ?thesis
      by (intro exI [of _ y]) simp
  qed
qed


theorem call_two_steps_witness:
  "wf_tensor \<lparr> fdim = 2, frames = [[1, 2], [3, 4 :: real]] \<rparr>
   \<and> global_cmvn (CMVN_init \<lparr> hp_type = ''CMVN'', global_mean = [1, 2 :: real],
         global_variance = [1, 1], local_cmvn = True \<rparr>)
   \<and> local_cmvn (config (CMVN_init \<lparr> hp_type = ''CMVN'', global_mean = [1, 2 :: real],
         global_variance = [1, 1], local_cmvn = True \<rparr>))
   \<and> call real_ops (CMVN_init \<lparr> hp_type = ''CMVN'', global_mean = [1, 2],
         global_variance = [1, 1], local_cmvn = True \<rparr>)
        \<lparr> fdim = 2, frames = [[1, 2], [3, 4]] \<rparr> 1
      = Inr \<lparr> fdim = 2, frames = [[- (1000000 / 1000001), - (1000000 / 1000001)],
                                    [1000000 / 1000001, 1000000 / 1000001]] \<rparr>
   \<and> (\<exists>y :: real tensor. wf_tensor y \<and> fdim y = 2 \<and> length (frames y) = 2
          \<and> frames y ! 1 ! 0 = (3 - 1) / 1 \<and> frames y ! 1 ! 1 = (4 - 2) / 1
          \<and> frames y ! 0 ! 0 = (1 - 1) / 1 \<and> frames y ! 0 ! 1 = (2 - 2) / 1)"
proof -
  let ?h = "\<lparr> hp_type = ''CMVN'', global_mean = [1, 2 :: real],
         global_variance = [1, 1], local_cmvn = True \<rparr>"
  let ?x = "\<lparr> fdim = 2, frames = [[1, 2], [3, 4 :: real]] \<rparr>"
  let ?z = "\<lparr> fdim = 2, frames = [[- (1000000 / 1000001), - (1000000 / 1000001)],
                                    [1000000 / 1000001, 1000000 / 1000001 :: real]] \<rparr>"
  have wf: "wf_tensor ?x"
    by (simp add: wf_tensor_def)
  have g: "global_cmvn (CMVN_init ?h)" and l: "local_cmvn (config (CMVN_init ?h))"
    by (simp_all add: CMVN_init_def)
  have dims: "global_cmvn (CMVN_init ?h) \<longrightarrow>
           length (global_mean (config (CMVN_init ?h))) = fdim ?x
           \<and> length (global_variance (config (CMVN_init ?h))) = fdim ?x"
    by (simp add: CMVN_init_def)
  have m: "moments real_ops \<lparr> fdim = 2, frames = [[0, 0], [2, 2 :: real]] \<rparr> = ([1, 1], [1, 1])"
    by (simp add: moments_def column_def real_ops_sel Let_def upt_rec numeral_2_eq_2)
  have c: "call real_ops (CMVN_init ?h) ?x 1 = Inr ?z"
    by (simp add: call_def CMVN_init_def local_step_def m broadcast_op_def bdim_def stretch_def
          bind_err_def real_ops_sel)
  from call_two_steps [OF wf dims, of real_ops 1] g
  obtain y where y: "wf_tensor y" "fdim y = fdim ?x" "length (frames y) = length (frames ?x)"
      "\<forall>t<length (frames ?x). \<forall>d<fdim ?x.
         frames y ! t ! d =
           t_div real_ops (t_sub real_ops (frames ?x ! t ! d) (global_mean (config (CMVN_init ?h)) ! d))
             (global_variance (config (CMVN_init ?h)) ! d)"
    by auto
  from y(4) have e: "t < 2 \<Longrightarrow> d < 2 \<Longrightarrow>
      frames y ! t ! d = ([[1, 2], [3, 4]] ! t ! d - [1, 2] ! d) / [1, 1 :: real] ! d" for t d
    by (simp add: CMVN_init_def real_ops_sel)
  have "frames y ! 1 ! 0 = (3 - 1) / 1 \<and> frames y ! 1 ! 1 = (4 - 2) / 1
          \<and> frames y ! 0 ! 0 = (1 - 1) / 1 \<and> frames y ! 0 ! 1 = (2 - 2) / 1"
    using e [of 1 0] e [of 1 1] e [of 0 0] e [of 0 1] by simp
  with y(1,2,3)
  have "\<exists>y :: real tensor. wf_tensor y \<and> fdim y = 2 \<and> length (frames y) = 2
          \<and> frames y ! 1 ! 0 = (3 - 1) / 1 \<and> frames y ! 1 ! 1 = (4 - 2) / 1
          \<and> frames y ! 0 ! 0 = (1 - 1) / 1 \<and> frames y ! 0 ! 1 = (2 - 2) / 1"
    by (intro exI [of _ y]) simp
  with wf g l c show ?thesis by blast
qed

text \<open>
  C4, as the code has it. With global normalisation enabled, \<^verbatim>\<open>call\<close> fails with a
  shape error when the last dimension of the feature differs from the length of
  \<^verbatim>\<open>global_mean\<close> and is not one. A feature whose last dimension is one is not
  rejected: its single column is stretched against the statistics and the result has as
  many columns as \<^verbatim>\<open>global_mean\<close> has elements.
\<close>

theorem call_shape_mismatch:
  "(1 < length (global_mean h) \<and> fdim x \<noteq> length (global_mean h) \<and> fdim x \<noteq> 1 \<longrightarrow>
      call ops (CMVN_init h) x speed = Inl ShapeError)
   \<and> (1 < length (global_mean h) \<and> length (global_variance h) = length (global_mean h)
        \<and> fdim x = 1 \<longrightarrow>
      (\<exists>y. call ops (CMVN_init h) x speed = Inr y \<and> fdim y = length (global_mean h)
            \<and> length (frames y) = length (frames x)))"
proof (intro conjI impI)
  assume a: "1 < length (global_mean h) \<and> fdim x \<noteq> length (global_mean h) \<and> fdim x \<noteq> 1"
  then have "broadcast_op (t_sub ops) x (global_mean h) = Inl ShapeError"
    by (simp add: broadcast_op_mismatch)
  with a show "call ops (CMVN_init h) x speed = Inl ShapeError"
    by (simp add: call_def CMVN_init_def bind_err_def)
next
  assume a: "1 < length (global_mean h) \<and> length (global_variance h) = length (global_mean h)
        \<and> fdim x = 1"
  from a broadcast_op_column [of x "t_sub ops" "global_mean h"]
  obtain y where y: "broadcast_op (t_sub ops) x (global_mean h) = Inr y"
      "fdim y = length (global_mean h)" "length (frames y) = length (frames x)"
    by blast
  from a y have "length (global_variance h) = fdim y" by simp
  from broadcast_op_shape [OF this, of "t_div ops"]
  obtain z where z: "broadcast_op (t_div ops) y (global_variance h) = Inr z"
      "fdim z = fdim y" "length (frames z) = length (frames y)"
    by blast
  from local_step_shape [of ops z]
  obtain w where w: "local_step ops z = Inr w" "fdim w = fdim z"
      "length (frames w) = length (frames z)"
    by blast
  have "call ops (CMVN_init h) x speed = (if local_cmvn h then Inr w else Inr z)"
    using a by (simp add: call_def CMVN_init_def bind_err_def y z w)
  with y z w
  show "\<exists>y. call ops (CMVN_init h) x speed = Inr y \<and> fdim y = length (global_mean h)
            \<and> length (frames y) = length (frames x)"
    by (cases "local_cmvn h") simp_all
qed

theorem call_shape_mismatch_witness:
  "1 < length (global_mean \<lparr> hp_type = ''CMVN'', global_mean = [0, 0 :: real],
         global_variance = [1, 1], local_cmvn = False \<rparr>)
   \<and> fdim \<lparr> fdim = 3, frames = [[1, 2, 3 :: real]] \<rparr> \<noteq> 2
   \<and> fdim \<lparr> fdim = 3, frames = [[1, 2, 3 :: real]] \<rparr> \<noteq> 1
   \<and> call real_ops (CMVN_init \<lparr> hp_type = ''CMVN'', global_mean = [0, 0],
         global_variance = [1, 1], local_cmvn = False \<rparr>) \<lparr> fdim = 3, frames = [[1, 2, 3]] \<rparr> 1
      = Inl ShapeError
   \<and> (\<exists>y. call real_ops (CMVN_init \<lparr> hp_type = ''CMVN'', global_mean = [0, 0],
         global_variance = [1, 1], local_cmvn = False \<rparr>) \<lparr> fdim = 1, frames = [[5]] \<rparr> 1 = Inr y
        \<and> fdim y = 2 \<and> length (frames y) = 1)"
  using call_shape_mismatch [of "\<lparr> hp_type = ''CMVN'', global_mean = [0, 0 :: real],
         global_variance = [1, 1], local_cmvn = False \<rparr>" "\<lparr> fdim = 3, frames = [[1, 2, 3]] \<rparr>"
         real_ops 1]
    call_shape_mismatch [of "\<lparr> hp_type = ''CMVN'', global_mean = [0, 0 :: real],
         global_variance = [1, 1], local_cmvn = False \<rparr>" "\<lparr> fdim = 1, frames = [[5]] \<rparr>"
         real_ops 1]
  by (simp add: numeral_2_eq_2)

text \<open>
  C4 as stated fails: with \<^verbatim>\<open>global_mean = [0, 0]\<close> and raw variance \<^verbatim>\<open>[1, 1]\<close>,
  two frames of dimensionality one are normalised into two frames of dimensionality two.
\<close>

theorem call_shape_mismatch_counterexample:
  "params real_ops (Some \<lparr> cfg_type = None, cfg_global_mean = Some [0, 0],
      cfg_global_variance = Some [1, 1], cfg_local_cmvn = None, cfg_other_keys = [] \<rparr>)
     = Inr \<lparr> hp_type = ''CMVN'', global_mean = [0, 0],
             global_variance = [1000001 / 1000000, 1000001 / 1000000], local_cmvn = False \<rparr>
   \<and> global_cmvn (CMVN_init \<lparr> hp_type = ''CMVN'', global_mean = [0, 0 :: real],
             global_variance = [1000001 / 1000000, 1000001 / 1000000], local_cmvn = False \<rparr>)
   \<and> fdim \<lparr> fdim = 1, frames = [[5 :: real], [7]] \<rparr>
       \<noteq> length (global_mean \<lparr> hp_type = ''CMVN'', global_mean = [0, 0 :: real],
             global_variance = [1000001 / 1000000, 1000001 / 1000000], local_cmvn = False \<rparr>)
   \<and> call real_ops (CMVN_init \<lparr> hp_type = ''CMVN'', global_mean = [0, 0],
             global_variance = [1000001 / 1000000, 1000001 / 1000000], local_cmvn = False \<rparr>)
        \<lparr> fdim = 1, frames = [[5], [7]] \<rparr> 1
     = Inr \<lparr> fdim = 2, frames = [[5000000 / 1000001, 5000000 / 1000001],
                                   [7000000 / 1000001, 7000000 / 1000001]] \<rparr>"
  by (simp add: params_def parse_def defaults_def bind_err_def real_ops_def CMVN_init_def
        call_def broadcast_op_def bdim_def stretch_def)

text \<open>
  C5. The constructor keeps the configuration and sets \<^verbatim>\<open>global_cmvn\<close> exactly when
  \<^verbatim>\<open>global_mean\<close> has more than one element. With a single element the flag is
  false and \<^verbatim>\<open>call\<close> skips the global step: it returns the input, or the result of the
  local step alone.
\<close>

theorem global_cmvn_flag:
  "global_cmvn (CMVN_init h) = (length (global_mean h) > 1)
   \<and> config (CMVN_init h) = h
   \<and> (length (global_mean h) = 1 \<longrightarrow>
        \<not> global_cmvn (CMVN_init h)
        \<and> call ops (CMVN_init h) x speed = (if local_cmvn h then local_step ops x else Inr x))"
  by (simp add: CMVN_init_def call_def bind_err_def)

theorem global_cmvn_flag_witness:
  "length (global_mean \<lparr> hp_type = ''CMVN'', global_mean = [5 :: real], global_variance = [2],
      local_cmvn = False \<rparr>) = 1
   \<and> \<not> global_cmvn (CMVN_init \<lparr> hp_type = ''CMVN'', global_mean = [5 :: real],
      global_variance = [2], local_cmvn = False \<rparr>)
   \<and> call real_ops (CMVN_init \<lparr> hp_type = ''CMVN'', global_mean = [5], global_variance = [2],
      local_cmvn = False \<rparr>) \<lparr> fdim = 1, frames = [[7]] \<rparr> 1
     = Inr \<lparr> fdim = 1, frames = [[7]] \<rparr>"
  using global_cmvn_flag [of "\<lparr> hp_type = ''CMVN'', global_mean = [5 :: real],
      global_variance = [2], local_cmvn = False \<rparr>" real_ops "\<lparr> fdim = 1, frames = [[7]] \<rparr>" 1]
  by simp

subsection \<open>The function \<^verbatim>\<open>compute_cmvn\<close>\<close>

text \<open>
  C6. Called with a mean and without a variance, \<^verbatim>\<open>compute_cmvn\<close> fails with an
  assertion error, whatever the feature, the mean and the flag.
\<close>

theorem compute_cmvn_mean_without_variance:
  "compute_cmvn ops audio_feature (Some m) None local = Inl (AssertionError None)"
  by (simp add: compute_cmvn_def bind_err_def)

text \<open>
  C7. With a mean and a variance of the feature's dimensionality, the global branch of
  \<^verbatim>\<open>compute_cmvn\<close> divides the centred element by the variance exactly as the caller
  gave it: no square root, no \<^verbatim>\<open>1e-6\<close>. \<^verbatim>\<open>CMVN.call\<close> on a configuration built by
  \<^verbatim>\<open>params\<close> from the same mean and variance is \<^verbatim>\<open>compute_cmvn\<close> at the
  square-rooted variance plus \<^verbatim>\<open>1e-6\<close>.
\<close>

theorem compute_cmvn_raw_variance:
  "(wf_tensor x \<and> length m = fdim x \<and> length v = fdim x \<longrightarrow>
      (\<exists>y. compute_cmvn ops x (Some m) (Some v) False = Inr y
            \<and> wf_tensor y \<and> fdim y = fdim x \<and> length (frames y) = length (frames x)
            \<and> (\<forall>t<length (frames x). \<forall>d<fdim x.
                  frames y ! t ! d = t_div ops (t_sub ops (frames x ! t ! d) (m ! d)) (v ! d))))
   \<and> (params ops (Some cfg) = Inr h \<and> cfg_global_mean cfg = Some m
        \<and> cfg_global_variance cfg = Some v \<and> 1 < length m \<longrightarrow>
      call ops (CMVN_init h) x' speed =
        compute_cmvn ops x' (Some m)
          (Some (map (\<lambda>e. np_add ops (np_sqrt ops e) (eps ops)) v)) (local_cmvn h))"
proof (intro conjI impI)
  assume a: "wf_tensor x \<and> length m = fdim x \<and> length v = fdim x"
  then have "wf_tensor x" "length m = fdim x" "length v = fdim x" by simp_all
  from global_step_nth [OF this, of "t_sub ops" "t_div ops"]
  show "\<exists>y. compute_cmvn ops x (Some m) (Some v) False = Inr y
            \<and> wf_tensor y \<and> fdim y = fdim x \<and> length (frames y) = length (frames x)
            \<and> (\<forall>t<length (frames x). \<forall>d<fdim x.
                  frames y ! t ! d = t_div ops (t_sub ops (frames x ! t ! d) (m ! d)) (v ! d))"
    by (auto simp: compute_cmvn_def bind_err_def split: sum.splits)
next
  assume a: "params ops (Some cfg) = Inr h \<and> cfg_global_mean cfg = Some m
        \<and> cfg_global_variance cfg = Some v \<and> 1 < length m"
  then have p: "params ops (Some cfg) = Inr h" by simp
  have va: "variance_after ops (Some cfg) = v" and ma: "mean_after ops (Some cfg) = m"
    using a by (simp_all add: variance_after_def mean_after_def)
  have keys: "cfg_other_keys cfg = []"
    using p params_Some_unknown [of cfg ops] by (cases "cfg_other_keys cfg = []") simp_all
  have gm: "global_mean h = m"
    using p by (auto simp: params_Some_known [OF keys] ma split: if_splits)
  have gv: "global_variance h = map (\<lambda>e. np_add ops (np_sqrt ops e) (eps ops)) v"
    using params_global_variance [OF p] by (simp add: va)
  show "call ops (CMVN_init h) x' speed =
        compute_cmvn ops x' (Some m)
          (Some (map (\<lambda>e. np_add ops (np_sqrt ops e) (eps ops)) v)) (local_cmvn h)"
    using a by (simp add: call_def compute_cmvn_def CMVN_init_def gm gv)
qed

theorem compute_cmvn_raw_variance_witness:
  "wf_tensor \<lparr> fdim = 2, frames = [[2, 4 :: real]] \<rparr>
   \<and> compute_cmvn real_ops \<lparr> fdim = 2, frames = [[2, 4]] \<rparr> (Some [0, 0]) (Some [4, 4]) False
       = Inr \<lparr> fdim = 2, frames = [[1 / 2, 1]] \<rparr>
   \<and> params real_ops (Some \<lparr> cfg_type = None, cfg_global_mean = Some [0, 0],
        cfg_global_variance = Some [4, 4], cfg_local_cmvn = None, cfg_other_keys = [] \<rparr>)
       = Inr \<lparr> hp_type = ''CMVN'', global_mean = [0, 0],
               global_variance = [2000001 / 1000000, 2000001 / 1000000], local_cmvn = False \<rparr>
   \<and> call real_ops (CMVN_init \<lparr> hp_type = ''CMVN'', global_mean = [0, 0],
               global_variance = [2000001 / 1000000, 2000001 / 1000000], local_cmvn = False \<rparr>)
        \<lparr> fdim = 2, frames = [[2, 4]] \<rparr> 1
       = compute_cmvn real_ops \<lparr> fdim = 2, frames = [[2, 4]] \<rparr> (Some [0, 0])
           (Some [sqrt 4 + 1 / 1000000, sqrt 4 + 1 / 1000000]) False
   \<and> call real_ops (CMVN_init \<lparr> hp_type = ''CMVN'', global_mean = [0, 0],
               global_variance = [2000001 / 1000000, 2000001 / 1000000], local_cmvn = False \<rparr>)
        \<lparr> fdim = 2, frames = [[2, 4]] \<rparr> 1
       = Inr \<lparr> fdim = 2, frames = [[2000000 / 2000001, 4000000 / 2000001]] \<rparr>"
proof -
  let ?x = "\<lparr> fdim = 2, frames = [[2, 4 :: real]] \<rparr>"
  let ?cfg = "\<lparr> cfg_type = None, cfg_global_mean = Some [0, 0 :: real],
        cfg_global_variance = Some [4, 4], cfg_local_cmvn = None, cfg_other_keys = [] \<rparr>"
  let ?h = "\<lparr> hp_type = ''CMVN'', global_mean = [0, 0 :: real],
               global_variance = [2000001 / 1000000, 2000001 / 1000000], local_cmvn = False \<rparr>"
  have wf: "wf_tensor ?x" by (simp add: wf_tensor_def)
  have p: "params real_ops (Some ?cfg) = Inr ?h"
    by (simp add: params_def parse_def defaults_def bind_err_def real_ops_sel)
  have raw: "compute_cmvn real_ops ?x (Some [0, 0]) (Some [4, 4]) False
       = Inr \<lparr> fdim = 2, frames = [[1 / 2, 1]] \<rparr>"
    by (simp add: compute_cmvn_def broadcast_op_def bdim_def stretch_def bind_err_def real_ops_sel)
  have "call real_ops (CMVN_init ?h) ?x 1 =
        compute_cmvn real_ops ?x (Some [0, 0])
          (Some (map (\<lambda>e. np_add real_ops (np_sqrt real_ops e) (eps real_ops)) [4, 4]))
          (local_cmvn ?h)"
    using compute_cmvn_raw_variance [of ?x "[0, 0]" "[4, 4]" real_ops ?cfg ?h ?x 1] p
    by simp
  then have eq: "call real_ops (CMVN_init ?h) ?x 1 =
        compute_cmvn real_ops ?x (Some [0, 0])
          (Some [sqrt 4 + 1 / 1000000, sqrt 4 + 1 / 1000000]) False"
    by (simp add: real_ops_sel)
  have val: "call real_ops (CMVN_init ?h) ?x 1
       = Inr \<lparr> fdim = 2, frames = [[2000000 / 2000001, 4000000 / 2000001]] \<rparr>"
    by (simp add: call_def CMVN_init_def broadcast_op_def bdim_def stretch_def bind_err_def
          real_ops_sel)
  from wf raw p eq val show ?thesis by blast
qed

subsection \<open>The method \<^verbatim>\<open>dim\<close>\<close>

text \<open>
  C8. The class body does not bind \<^verbatim>\<open>dim\<close>: its \<^verbatim>\<open>def\<close> stands inside the body
  of \<^verbatim>\<open>call\<close>, after the \<^verbatim>\<open>return\<close>, so that running \<^verbatim>\<open>call\<close> binds no name
  either. The class has the three methods \<^verbatim>\<open>__init__\<close>, \<^verbatim>\<open>params\<close> and
  \<^verbatim>\<open>call\<close> and no method \<^verbatim>\<open>dim\<close> of its own.
\<close>

theorem dim_not_bound:
  "bound_names CMVN_body = [''__init__'', ''params'', ''call'']
   \<and> ''dim'' \<notin> set (bound_names CMVN_body)
   \<and> bound_names call_body = []"
  by (simp add: CMVN_body_def call_body_def)

subsection \<open>Repeated application and the identity\<close>

text \<open>
  C9. With \<^verbatim>\<open>local_cmvn\<close> false and global normalisation enabled, \<^verbatim>\<open>call\<close> is not
  idempotent: for the configuration built from mean \<^verbatim>\<open>[1, 1]\<close> and variance
  \<^verbatim>\<open>[1, 1]\<close> there is a feature whose normalised form changes when it is normalised
  again (over the reals: the frame \<^verbatim>\<open>[1, 1]\<close> goes to \<^verbatim>\<open>[0, 0]\<close>, and that to
  \<^verbatim>\<open>[-1/1.000001, -1/1.000001]\<close>).
\<close>

theorem call_not_idempotent:
  "params real_ops (Some \<lparr> cfg_type = None, cfg_global_mean = Some [1, 1],
      cfg_global_variance = Some [1, 1], cfg_local_cmvn = Some False, cfg_other_keys = [] \<rparr>)
     = Inr \<lparr> hp_type = ''CMVN'', global_mean = [1, 1],
             global_variance = [1000001 / 1000000, 1000001 / 1000000], local_cmvn = False \<rparr>
   \<and> global_cmvn (CMVN_init \<lparr> hp_type = ''CMVN'', global_mean = [1, 1 :: real],
             global_variance = [1000001 / 1000000, 1000001 / 1000000], local_cmvn = False \<rparr>)
   \<and> (\<exists>x y z.
        call real_ops (CMVN_init \<lparr> hp_type = ''CMVN'', global_mean = [1, 1],
             global_variance = [1000001 / 1000000, 1000001 / 1000000], local_cmvn = False \<rparr>) x 1
          = Inr y
        \<and> call real_ops (CMVN_init \<lparr> hp_type = ''CMVN'', global_mean = [1, 1],
             global_variance = [1000001 / 1000000, 1000001 / 1000000], local_cmvn = False \<rparr>) y 1
          = Inr z
        \<and> y \<noteq> z)"
proof -
  let ?h = "\<lparr> hp_type = ''CMVN'', global_mean = [1, 1 :: real],
             global_variance = [1000001 / 1000000, 1000001 / 1000000], local_cmvn = False \<rparr>"
  let ?x = "\<lparr> fdim = 2, frames = [[1, 1 :: real]] \<rparr>"
  let ?y = "\<lparr> fdim = 2, frames = [[0, 0 :: real]] \<rparr>"
  let ?z = "\<lparr> fdim = 2, frames = [[- (1000000 / 1000001), - (1000000 / 1000001) :: real]] \<rparr>"
  have p: "params real_ops (Some \<lparr> cfg_type = None, cfg_global_mean = Some [1, 1],
      cfg_global_variance = Some [1, 1], cfg_local_cmvn = Some False, cfg_other_keys = [] \<rparr>)
     = Inr ?h"
    by (simp add: params_def parse_def defaults_def bind_err_def real_ops_def)
  have g: "global_cmvn (CMVN_init ?h)"
    by (simp add: CMVN_init_def)
  have c1: "call real_ops (CMVN_init ?h) ?x 1 = Inr ?y"
    by (simp add: real_ops_def CMVN_init_def call_def broadcast_op_def bdim_def stretch_def
          bind_err_def)
  have c2: "call real_ops (CMVN_init ?h) ?y 1 = Inr ?z"
    by (simp add: real_ops_def CMVN_init_def call_def broadcast_op_def bdim_def stretch_def
          bind_err_def)
  have ne: "?y \<noteq> ?z" by simp
  from c1 c2 ne have "\<exists>x y z. call real_ops (CMVN_init ?h) x 1 = Inr y
      \<and> call real_ops (CMVN_init ?h) y 1 = Inr z \<and> y \<noteq> z"
    by blast
  with p g show ?thesis by blast
qed

text \<open>
  C10. With neither normalisation enabled \<^verbatim>\<open>call\<close> returns its input, and
  \<^verbatim>\<open>compute_cmvn\<close> without a mean and with \<^verbatim>\<open>local_cmvn\<close> false returns the feature,
  whatever variance is passed.
\<close>

theorem no_normalization_identity:
  "(\<not> global_cmvn c \<and> \<not> local_cmvn (config c) \<longrightarrow> call ops c x speed = Inr x)
   \<and> compute_cmvn ops x None variance False = Inr x"
  by (simp add: call_def compute_cmvn_def bind_err_def)

theorem no_normalization_identity_witness:
  "\<not> global_cmvn (CMVN_init (defaults real_ops))
   \<and> \<not> local_cmvn (config (CMVN_init (defaults real_ops)))
   \<and> call real_ops (CMVN_init (defaults real_ops)) \<lparr> fdim = 2, frames = [[1, 2], [3, 4]] \<rparr> 1
     = Inr \<lparr> fdim = 2, frames = [[1, 2], [3, 4]] \<rparr>
   \<and> compute_cmvn real_ops \<lparr> fdim = 2, frames = [[1, 2], [3, 4]] \<rparr> None (Some [0, 0]) False
     = Inr \<lparr> fdim = 2, frames = [[1, 2], [3, 4]] \<rparr>"
  using no_normalization_identity [of "CMVN_init (defaults real_ops)" real_ops
      "\<lparr> fdim = 2, frames = [[1, 2], [3, 4]] \<rparr>" 1 "Some [0, 0]"]
  by (simp add: CMVN_init_def defaults_def)

end
